theory Spec2Isabelle
  imports Main
begin

section \<open>JavaScript values\<close>

text \<open>
  The values that travel through the two modules: a field of a request body is a string,
  \<^verbatim>\<open>null\<close>, or \<^verbatim>\<open>undefined\<close> when the key is missing. An object is the list
  of its own properties; destructuring \<^verbatim>\<open>const { k } = obj\<close> reads property \<open>k\<close> and
  yields \<^verbatim>\<open>undefined\<close> when the object has no such key. Strict equality \<^verbatim>\<open>===\<close> on
  these values is equality of the datatype.
\<close>

datatype jsval = Undefined | Null | Str string

type_synonym jsobj = "(string \<times> jsval) list"

definition js_get :: "jsobj \<Rightarrow> string \<Rightarrow> jsval" where
  "js_get obj k = (case map_of obj k of None \<Rightarrow> Undefined | Some v \<Rightarrow> v)"

text \<open>String conversion inside a template literal.\<close>

fun to_string :: "jsval \<Rightarrow> string" where
  "to_string Undefined = ''undefined''"
| "to_string Null = ''null''"
| "to_string (Str s) = s"

text \<open>A thrown \<^verbatim>\<open>Error\<close> object, with its message.\<close>

datatype error = Error string

fun message :: "error \<Rightarrow> string" where
  "message (Error m) = m"

section \<open>The bcrypt module\<close>

text \<open>
  \<^verbatim>\<open>bcrypt\<close> is an external module, so its two functions are parameters of the model:
  \<open>hash_of p rounds\<close> is the string that \<^verbatim>\<open>bcrypt.hash(p, rounds)\<close> resolves to in the call
  at hand (the salt it draws belongs to the environment), and \<open>matches p h\<close> is the boolean
  that \<^verbatim>\<open>bcrypt.compare(p, h)\<close> resolves to. Both reject when an argument is not a string.
\<close>

record bcrypt =
  hash_of :: "string \<Rightarrow> nat \<Rightarrow> string"
  matches :: "string \<Rightarrow> string \<Rightarrow> bool"

definition bcrypt_hash :: "bcrypt \<Rightarrow> jsval \<Rightarrow> nat \<Rightarrow> error + string" where
  "bcrypt_hash B data rounds =
     (case data of
        Str p \<Rightarrow> Inr (hash_of B p rounds)
      | _ \<Rightarrow> Inl (Error ''data and salt arguments required''))"

definition bcrypt_compare :: "bcrypt \<Rightarrow> jsval \<Rightarrow> jsval \<Rightarrow> error + bool" where
  "bcrypt_compare B data hashed =
     (case (data, hashed) of
        (Str p, Str h) \<Rightarrow> Inr (matches B p h)
      | _ \<Rightarrow> Inl (Error ''data and hash arguments required''))"

section \<open>The database behind the pool\<close>

text \<open>
  A row of \<^verbatim>\<open>public.user_list\<close> with the columns the queries name. Text columns may hold
  SQL NULL (\<open>None\<close>). \<open>admin_list\<close> is kept as the list of its \<^verbatim>\<open>user_id\<close> column.
  Identifiers are strings, as the docstrings of the model functions type them.
\<close>

record user_row =
  row_id :: string
  first_name :: "string option"
  last_name_1 :: "string option"
  last_name_2 :: "string option"
  username :: "string option"
  user_password :: "string option"
  email :: "string option"
  verified :: bool

datatype logarg = LStr string | LObj jsobj | LErr error

datatype log_entry = ConsoleLog "logarg list" | ConsoleError "logarg list"

text \<open>
  The state the two modules act on: the two tables, the console, and whether the storage
  engine answers. \<open>failure = Some m\<close> means that \<^verbatim>\<open>pool.query\<close> rejects with an error
  whose message is \<open>m\<close>.
\<close>

record world =
  failure :: "string option"
  user_list :: "user_row list"
  admin_list :: "string list"
  console :: "log_entry list"

definition console_log :: "logarg list \<Rightarrow> world \<Rightarrow> world" where
  "console_log args w = w\<lparr>console := console w @ [ConsoleLog args]\<rparr>"

definition console_error :: "logarg list \<Rightarrow> world \<Rightarrow> world" where
  "console_error args w = w\<lparr>console := console w @ [ConsoleError args]\<rparr>"

text \<open>A query parameter: the driver sends \<^verbatim>\<open>undefined\<close> and \<^verbatim>\<open>null\<close> as NULL.\<close>

fun prepareValue :: "jsval \<Rightarrow> string option" where
  "prepareValue Undefined = None"
| "prepareValue Null = None"
| "prepareValue (Str s) = Some s"

text \<open>A column value as the driver hands it back in a row object.\<close>

fun column_js :: "string option \<Rightarrow> jsval" where
  "column_js None = Null"
| "column_js (Some s) = Str s"

text \<open>\<^verbatim>\<open>col = $n\<close> in a WHERE clause selects a row only when neither side is NULL.\<close>

definition sql_eq :: "string option \<Rightarrow> string option \<Rightarrow> bool" where
  "sql_eq a b = (case (a, b) of (Some x, Some y) \<Rightarrow> x = y | _ \<Rightarrow> False)"

text \<open>\<^verbatim>\<open>col = ANY($1)\<close> for an array parameter.\<close>

definition sql_any :: "string option \<Rightarrow> string list \<Rightarrow> bool" where
  "sql_any a xs = (case a of Some x \<Rightarrow> x \<in> set xs | None \<Rightarrow> False)"

text \<open>\<^verbatim>\<open>COALESCE(a, b)\<close>.\<close>

definition coalesce :: "'a option \<Rightarrow> 'a option \<Rightarrow> 'a option" where
  "coalesce a b = (case a of Some x \<Rightarrow> Some x | None \<Rightarrow> b)"

text \<open>
  Modelled from the spec: the declaration of \<^verbatim>\<open>public.user_list\<close> is not in the source, and
  the INSERT of \<open>createUser\<close> leaves the \<^verbatim>\<open>verified\<close> column to its default. The spec gives
  the default: "verified flag (boolean, default false at creation)".
\<close>

definition verified_default :: bool where
  "verified_default = False"

section \<open>userModel\<close>

text \<open>\<^verbatim>\<open>SELECT * FROM public.user_list WHERE username = $1\<close>, then \<^verbatim>\<open>rows[0] || null\<close>.\<close>

definition findUserByUsername :: "jsval \<Rightarrow> world \<Rightarrow> error + user_row option" where
  "findUserByUsername uname w =
     (case failure w of
        Some m \<Rightarrow> Inl (Error m)
      | None \<Rightarrow>
          Inr (case filter (\<lambda>r. sql_eq (username r) (prepareValue uname)) (user_list w) of
                 [] \<Rightarrow> None
               | r # _ \<Rightarrow> Some r))"

text \<open>
  \<^verbatim>\<open>SELECT * FROM public.admin_list WHERE user_id = $1\<close>; true when a row comes back.
  Whatever the query throws is replaced by \<^verbatim>\<open>Error('Database query error')\<close>.
\<close>

definition checkIfAdmin :: "jsval \<Rightarrow> world \<Rightarrow> error + bool" where
  "checkIfAdmin uid w =
     (case failure w of
        Some m \<Rightarrow> Inl (Error ''Database query error'')
      | None \<Rightarrow>
          Inr (0 < length (filter (\<lambda>a. sql_eq (Some a) (prepareValue uid)) (admin_list w))))"

text \<open>
  \<open>createUser\<close> reads six keys of \<open>userData\<close>, hashes the password with cost 10 and
  inserts one row. The INSERT names six columns; \<^verbatim>\<open>id\<close> and \<^verbatim>\<open>verified\<close> are filled by
  the table: the identifier the table generates is the parameter \<open>new_id\<close>. An error of the
  hash or of the query is rethrown with the prefix of the catch block.
\<close>

definition createUser :: "bcrypt \<Rightarrow> string \<Rightarrow> jsobj \<Rightarrow> world \<Rightarrow> error + world" where
  "createUser B new_id userData w =
     (let v_first_name = js_get userData ''first_name'';
          v_last_name_1 = js_get userData ''last_name_1'';
          v_last_name_2 = js_get userData ''last_name_2'';
          v_username = js_get userData ''username'';
          v_user_password = js_get userData ''user_password'';
          v_email = js_get userData ''email''
      in case bcrypt_hash B v_user_password 10 of
           Inl e \<Rightarrow> Inl (Error (''Error al crear el usuario: '' @ message e))
         | Inr hashedPassword \<Rightarrow>
             (case failure w of
                Some m \<Rightarrow> Inl (Error (''Error al crear el usuario: '' @ m))
              | None \<Rightarrow>
                  Inr (w\<lparr>user_list := user_list w @
                         [\<lparr>row_id = new_id,
                           first_name = prepareValue v_first_name,
                           last_name_1 = prepareValue v_last_name_1,
                           last_name_2 = prepareValue v_last_name_2,
                           username = prepareValue v_username,
                           user_password = Some hashedPassword,
                           email = prepareValue v_email,
                           verified = verified_default\<rparr>]\<rparr>)))"

text \<open>\<^verbatim>\<open>UPDATE public.user_list SET verified = TRUE WHERE username = ANY($1)\<close>.\<close>

definition verifyUsers :: "string list \<Rightarrow> world \<Rightarrow> error + world" where
  "verifyUsers usernames w =
     (case failure w of
        Some m \<Rightarrow> Inl (Error (''Error al verificar usuarios: '' @ m))
      | None \<Rightarrow>
          Inr (w\<lparr>user_list :=
                  map (\<lambda>r. if sql_any (username r) usernames then r\<lparr>verified := True\<rparr> else r)
                      (user_list w)\<rparr>))"

text \<open>
  \<open>updateUserById\<close> reads the keys \<^verbatim>\<open>first_name\<close>, \<^verbatim>\<open>last_name1\<close>, \<^verbatim>\<open>last_name2\<close> and
  \<^verbatim>\<open>email\<close> of \<open>updatedInfo\<close> and runs one UPDATE on the rows whose id is \<open>userId\<close>. It
  returns the result of the query (its row count); an error of the query is written to
  the console and thrown again.
\<close>

definition updateUserById :: "jsval \<Rightarrow> jsobj \<Rightarrow> world \<Rightarrow> (error + nat) \<times> world" where
  "updateUserById userId updatedInfo w =
     (let v_first_name = js_get updatedInfo ''first_name'';
          v_last_name1 = js_get updatedInfo ''last_name1'';
          v_last_name2 = js_get updatedInfo ''last_name2'';
          v_email = js_get updatedInfo ''email''
      in case failure w of
           Some m \<Rightarrow>
             (Inl (Error m),
              console_error [LStr ''Error al actualizar el usuario:'', LErr (Error m)] w)
         | None \<Rightarrow>
             (Inr (length (filter (\<lambda>r. sql_eq (Some (row_id r)) (prepareValue userId))
                             (user_list w))),
              w\<lparr>user_list :=
                  map (\<lambda>r. if sql_eq (Some (row_id r)) (prepareValue userId)
                           then r\<lparr>first_name := coalesce (prepareValue v_first_name) (first_name r),
                                  last_name_1 := coalesce (prepareValue v_last_name1) (last_name_1 r),
                                  last_name_2 := coalesce (prepareValue v_last_name2) (last_name_2 r),
                                  email := coalesce (prepareValue v_email) (email r),
                                  verified := False\<rparr>
                           else r)
                      (user_list w)\<rparr>))"

definition verifyPassword :: "bcrypt \<Rightarrow> jsval \<Rightarrow> jsval \<Rightarrow> error + bool" where
  "verifyPassword B password hashedPassword = bcrypt_compare B password hashedPassword"

text \<open>
  \<open>updatePassword\<close> hashes with cost 10, then
  \<^verbatim>\<open>UPDATE public.user_list SET user_password = $1 WHERE id = $2\<close>. Nothing is caught.
\<close>

definition updatePassword :: "bcrypt \<Rightarrow> jsval \<Rightarrow> jsval \<Rightarrow> world \<Rightarrow> error + world" where
  "updatePassword B userId newPassword w =
     (case bcrypt_hash B newPassword 10 of
        Inl e \<Rightarrow> Inl e
      | Inr hashedPassword \<Rightarrow>
          (case failure w of
             Some m \<Rightarrow> Inl (Error m)
           | None \<Rightarrow>
               Inr (w\<lparr>user_list :=
                       map (\<lambda>r. if sql_eq (Some (row_id r)) (prepareValue userId)
                                then r\<lparr>user_password := Some hashedPassword\<rparr>
                                else r)
                           (user_list w)\<rparr>)))"

section \<open>userController\<close>

text \<open>\<^verbatim>\<open>res.status(n).json(obj)\<close>. Strings are kept as their UTF-8 bytes.\<close>

record response =
  status :: nat
  json :: jsobj

definition msg_not_found :: string where
  "msg_not_found = ''Usuario no encontrado''"

definition msg_bad_password :: string where
  "msg_bad_password = ''Contrase'' @ [CHR 0xC3, CHR 0xB1] @ ''a incorrecta''"

definition msg_not_verified :: string where
  "msg_not_verified =
     ''Usuario sin verificar. Un administrador te validar'' @ [CHR 0xC3, CHR 0xA1] @ '' pronto.''"

definition msg_success :: string where
  "msg_success = [CHR 0xC2, CHR 0xA1] @ ''Acceso correcto!''"

definition loginUser :: "jsobj \<Rightarrow> world \<Rightarrow> response \<times> world" where
  "loginUser req_body w0 =
     (let w = console_log [LStr ''Login request received: '', LObj req_body] w0;
          v_username = js_get req_body ''username'';
          v_password = js_get req_body ''password''
      in case findUserByUsername v_username w of
           Inl e \<Rightarrow>
             (\<lparr>status = 500, json = [(''message'', Str ''Error durante el acceso'')]\<rparr>,
              console_error [LStr ''Error durante el acceso:'', LStr (message e)] w)
         | Inr None \<Rightarrow>
             (\<lparr>status = 404, json = [(''message'', Str msg_not_found)]\<rparr>, w)
         | Inr (Some user) \<Rightarrow>
             (let isPasswordValid = (column_js (user_password user) = v_password)
              in if \<not> isPasswordValid
                 then (\<lparr>status = 401, json = [(''message'', Str msg_bad_password)]\<rparr>, w)
                 else if \<not> verified user
                 then (\<lparr>status = 403, json = [(''message'', Str msg_not_verified)]\<rparr>, w)
                 else (\<lparr>status = 200,
                         json = [(''message'', Str msg_success),
                                 (''user_id'', Str (row_id user))]\<rparr>,
                       console_log
                         [LStr (''User '' @ to_string v_username @ '' logged in successfully.'')]
                         w)))"

definition checkAdmin :: "jsobj \<Rightarrow> world \<Rightarrow> response \<times> world" where
  "checkAdmin req_body w =
     (let v_user_id = js_get req_body ''user_id''
      in case checkIfAdmin v_user_id w of
           Inl e \<Rightarrow>
             (\<lparr>status = 500, json = [(''message'', Str ''Internal server error'')]\<rparr>,
              console_error [LStr ''Error checking admin status:'', LStr (message e)] w)
         | Inr isAdmin \<Rightarrow>
             if isAdmin
             then (\<lparr>status = 200,
                     json = [(''message'', Str ''Entrando en ajustes como administrador'')]\<rparr>, w)
             else (\<lparr>status = 200,
                     json = [(''message'', Str ''Entrando en ajustes de usuario'')]\<rparr>, w))"

section \<open>Example data\<close>

text \<open>
  A stand-in for the bcrypt module and three stores, for the statements that are run on
  concrete input. In \<open>store_users\<close> the account \<^verbatim>\<open>alice\<close> is verified and is an
  administrator; the account \<^verbatim>\<open>carol\<close> is not verified.
\<close>

definition toy_bcrypt :: bcrypt where
  "toy_bcrypt =
     \<lparr>hash_of = (\<lambda>p rounds. ''$2b$10$'' @ p), matches = (\<lambda>p h. h = ''$2b$10$'' @ p)\<rparr>"

definition row_alice :: user_row where
  "row_alice =
     \<lparr>row_id = ''1'', first_name = Some ''Ana'', last_name_1 = Some ''Perez'',
      last_name_2 = Some ''Ruiz'', username = Some ''alice'',
      user_password = Some ''$2b$10$correct'', email = Some ''ana@example.org'',
      verified = True\<rparr>"

definition row_carol :: user_row where
  "row_carol =
     \<lparr>row_id = ''3'', first_name = Some ''Carol'', last_name_1 = None,
      last_name_2 = None, username = Some ''carol'',
      user_password = Some ''pw123'', email = None, verified = False\<rparr>"

definition store_empty :: world where
  "store_empty = \<lparr>failure = None, user_list = [], admin_list = [], console = []\<rparr>"

definition store_users :: world where
  "store_users =
     \<lparr>failure = None, user_list = [row_alice, row_carol], admin_list = [''1''], console = []\<rparr>"

definition store_down :: world where
  "store_down = store_users\<lparr>failure := Some ''connection refused''\<rparr>"

section \<open>Facts about the queries\<close>

lemma sql_eq_None [simp]: "sql_eq a None = False"
  by (cases a) (simp_all add: sql_eq_def)

lemma sql_eq_Some [simp]: "sql_eq a (Some s) = (a = Some s)"
  by (cases a) (auto simp: sql_eq_def)

lemma sql_any_iff: "sql_any a xs = (\<exists>n\<in>set xs. a = Some n)"
  by (cases a) (auto simp: sql_any_def)

lemma coalesce_prepareValue:
  "coalesce (prepareValue v) c = (case v of Str s \<Rightarrow> Some s | _ \<Rightarrow> c)"
  by (cases v) (simp_all add: coalesce_def)

lemma first_row_find:
  "(case filter P xs of [] \<Rightarrow> None | r # _ \<Rightarrow> Some r) = List.find P xs"
  by (induction xs) auto

lemma find_False [simp]: "List.find (\<lambda>r. False) xs = None"
  by (induction xs) simp_all

lemma findUserByUsername_find:
  "failure w = None \<Longrightarrow>
   findUserByUsername v w =
     Inr (case v of Str n \<Rightarrow> List.find (\<lambda>r. username r = Some n) (user_list w) | _ \<Rightarrow> None)"
  by (cases v) (simp_all add: findUserByUsername_def first_row_find)

lemma find_append_new:
  "\<forall>r\<in>set xs. \<not> P r \<Longrightarrow> P x \<Longrightarrow> List.find P (xs @ [x]) = Some x"
  by (induction xs) simp_all

lemma createUser_row:
  assumes "failure w = None" and "js_get userData ''user_password'' = Str p"
  shows "createUser B new_id userData w =
     Inr (w\<lparr>user_list := user_list w @
            [\<lparr>row_id = new_id,
              first_name = prepareValue (js_get userData ''first_name''),
              last_name_1 = prepareValue (js_get userData ''last_name_1''),
              last_name_2 = prepareValue (js_get userData ''last_name_2''),
              username = prepareValue (js_get userData ''username''),
              user_password = Some (hash_of B p 10),
              email = prepareValue (js_get userData ''email''),
              verified = False\<rparr>]\<rparr>)"
  using assms by (simp add: createUser_def bcrypt_hash_def verified_default_def)

lemma loginUser_response:
  assumes "failure w = None"
  shows "fst (loginUser body w) =
     (case (case js_get body ''username'' of
              Str n \<Rightarrow> List.find (\<lambda>r. username r = Some n) (user_list w)
            | _ \<Rightarrow> None) of
        None \<Rightarrow> \<lparr>status = 404, json = [(''message'', Str msg_not_found)]\<rparr>
      | Some u \<Rightarrow>
          if column_js (user_password u) \<noteq> js_get body ''password''
          then \<lparr>status = 401, json = [(''message'', Str msg_bad_password)]\<rparr>
          else if \<not> verified u
          then \<lparr>status = 403, json = [(''message'', Str msg_not_verified)]\<rparr>
          else \<lparr>status = 200,
                 json = [(''message'', Str msg_success), (''user_id'', Str (row_id u))]\<rparr>)"
proof -
  let ?w = "console_log [LStr ''Login request received: '', LObj body] w"
  have "failure ?w = None" and "user_list ?w = user_list w"
    using assms by (simp_all add: console_log_def)
  then have "findUserByUsername (js_get body ''username'') ?w =
     Inr (case js_get body ''username'' of
            Str n \<Rightarrow> List.find (\<lambda>r. username r = Some n) (user_list w) | _ \<Rightarrow> None)"
    by (simp add: findUserByUsername_find split: jsval.splits)
  then show ?thesis
    by (simp add: loginUser_def Let_def split: option.splits)
qed

lemma loginUser_logs_body:
  "ConsoleLog [LStr ''Login request received: '', LObj body] \<in> set (console (snd (loginUser body w)))"
  by (simp add: loginUser_def Let_def findUserByUsername_def console_log_def console_error_def
           split: option.splits list.splits)

section \<open>Login\<close>

text \<open>
  C1. The claim: when the user is found, login checks the submitted password against the
  stored one with the hash comparison of bcrypt, never by plain equality, and answers
  InvalidPassword (401) exactly when that comparison fails. \<open>loginUser\<close> compares with
  \<^verbatim>\<open>===\<close> instead. So for an account written by \<open>createUser\<close> and verified by
  \<open>verifyUsers\<close>, whose stored hash differs from the plaintext \<open>p\<close> and is accepted for
  \<open>p\<close> by \<open>verifyPassword\<close>, a login with \<open>p\<close> is answered 401, and a login that
  submits the stored hash itself is answered 200.
\<close>

theorem loginUser_rejects_hashed_password:
  assumes "failure w = None"
    and "\<forall>r\<in>set (user_list w). username r \<noteq> Some name"
    and "matches B p (hash_of B p 10)"
    and "hash_of B p 10 \<noteq> p"
  shows "\<exists>w1 w2.
      createUser B new_id [(''username'', Str name), (''user_password'', Str p)] w = Inr w1
    \<and> verifyUsers [name] w1 = Inr w2
    \<and> verifyPassword B (Str p) (Str (hash_of B p 10)) = Inr True
    \<and> fst (loginUser [(''username'', Str name), (''password'', Str p)] w2) =
        \<lparr>status = 401, json = [(''message'', Str msg_bad_password)]\<rparr>
    \<and> fst (loginUser [(''username'', Str name), (''password'', Str (hash_of B p 10))] w2) =
        \<lparr>status = 200, json = [(''message'', Str msg_success), (''user_id'', Str new_id)]\<rparr>"
proof -
  let ?r = "\<lparr>row_id = new_id, first_name = None, last_name_1 = None, last_name_2 = None,
             username = Some name, user_password = Some (hash_of B p 10), email = None,
             verified = False\<rparr>"
  let ?r2 = "\<lparr>row_id = new_id, first_name = None, last_name_1 = None, last_name_2 = None,
              username = Some name, user_password = Some (hash_of B p 10), email = None,
              verified = True\<rparr>"
  let ?w1 = "w\<lparr>user_list := user_list w @ [?r]\<rparr>"
  let ?rows2 = "map (\<lambda>r. if sql_any (username r) [name] then r\<lparr>verified := True\<rparr> else r)
                  (user_list w) @ [?r2]"
  let ?w2 = "?w1\<lparr>user_list := ?rows2\<rparr>"
  have c: "createUser B new_id [(''username'', Str name), (''user_password'', Str p)] w = Inr ?w1"
    using assms(1) by (simp add: createUser_row js_get_def)
  have v: "verifyUsers [name] ?w1 = Inr ?w2"
    using assms(1) by (simp add: verifyUsers_def sql_any_def)
  have "\<forall>r\<in>set (map (\<lambda>r. if sql_any (username r) [name] then r\<lparr>verified := True\<rparr> else r)
                  (user_list w)). \<not> username r = Some name"
    using assms(2) by (auto simp: sql_any_def)
  then have f: "List.find (\<lambda>r. username r = Some name) ?rows2 = Some ?r2"
    by (rule find_append_new) simp
  have w2: "failure ?w2 = None" "user_list ?w2 = ?rows2"
    using assms(1) by simp_all
  have l1: "fst (loginUser [(''username'', Str name), (''password'', Str p)] ?w2) =
        \<lparr>status = 401, json = [(''message'', Str msg_bad_password)]\<rparr>"
    using assms(4) by (simp only: loginUser_response [OF w2(1)] w2(2)) (simp add: js_get_def f)
  have l2: "fst (loginUser [(''username'', Str name), (''password'', Str (hash_of B p 10))] ?w2) =
        \<lparr>status = 200, json = [(''message'', Str msg_success), (''user_id'', Str new_id)]\<rparr>"
    by (simp only: loginUser_response [OF w2(1)] w2(2)) (simp add: js_get_def f)
  have vp: "verifyPassword B (Str p) (Str (hash_of B p 10)) = Inr True"
    using assms(3) by (simp add: verifyPassword_def bcrypt_compare_def)
  from c v vp l1 l2 show ?thesis by blast
qed

theorem loginUser_rejects_hashed_password_witness:
  "failure store_empty = None
   \<and> user_list store_empty = []
   \<and> matches toy_bcrypt ''correct'' (hash_of toy_bcrypt ''correct'' 10)
   \<and> hash_of toy_bcrypt ''correct'' 10 \<noteq> ''correct''
   \<and> (\<exists>w1 w2.
        createUser toy_bcrypt ''1''
          [(''username'', Str ''alice''), (''user_password'', Str ''correct'')] store_empty = Inr w1
      \<and> verifyUsers [''alice''] w1 = Inr w2
      \<and> verifyPassword toy_bcrypt (Str ''correct'') (Str (hash_of toy_bcrypt ''correct'' 10)) =
          Inr True
      \<and> fst (loginUser [(''username'', Str ''alice''), (''password'', Str ''correct'')] w2) =
          \<lparr>status = 401, json = [(''message'', Str msg_bad_password)]\<rparr>
      \<and> fst (loginUser [(''username'', Str ''alice''),
                         (''password'', Str (hash_of toy_bcrypt ''correct'' 10))] w2) =
          \<lparr>status = 200, json = [(''message'', Str msg_success), (''user_id'', Str ''1'')]\<rparr>)"
  using loginUser_rejects_hashed_password
    [of store_empty "''alice''" toy_bcrypt "''correct''" "''1''"]
  by (simp add: store_empty_def toy_bcrypt_def)

text \<open>
  C2. When the store answers, login decides in a fixed order: no row with the submitted
  username gives 404 (UserNotFound); otherwise the first such row is taken, and a failed
  password comparison gives 401 (InvalidPassword); otherwise an unverified row gives 403
  (NotVerified); otherwise 200 (Success) with the identifier of the row. The verified flag
  is looked at only after the password comparison has succeeded. The password comparison
  is the one \<open>loginUser\<close> makes, equality of the stored value and the submitted one.
\<close>

theorem loginUser_decision_order:
  assumes "failure w = None"
  shows "fst (loginUser body w) =
     (case (case js_get body ''username'' of
              Str n \<Rightarrow> List.find (\<lambda>r. username r = Some n) (user_list w)
            | _ \<Rightarrow> None) of
        None \<Rightarrow> \<lparr>status = 404, json = [(''message'', Str msg_not_found)]\<rparr>
      | Some u \<Rightarrow>
          if column_js (user_password u) \<noteq> js_get body ''password''
          then \<lparr>status = 401, json = [(''message'', Str msg_bad_password)]\<rparr>
          else if \<not> verified u
          then \<lparr>status = 403, json = [(''message'', Str msg_not_verified)]\<rparr>
          else \<lparr>status = 200,
                 json = [(''message'', Str msg_success), (''user_id'', Str (row_id u))]\<rparr>)"
  using assms by (rule loginUser_response)

theorem loginUser_decision_order_witness:
  "failure store_users = None
   \<and> fst (loginUser [(''username'', Str ''bob''), (''password'', Str ''x'')] store_users) =
       \<lparr>status = 404, json = [(''message'', Str msg_not_found)]\<rparr>
   \<and> fst (loginUser [(''username'', Str ''carol''), (''password'', Str ''wrong'')] store_users) =
       \<lparr>status = 401, json = [(''message'', Str msg_bad_password)]\<rparr>
   \<and> fst (loginUser [(''username'', Str ''carol''), (''password'', Str ''pw123'')] store_users) =
       \<lparr>status = 403, json = [(''message'', Str msg_not_verified)]\<rparr>
   \<and> fst (loginUser [(''username'', Str ''alice''), (''password'', Str ''$2b$10$correct'')]
          store_users) =
       \<lparr>status = 200, json = [(''message'', Str msg_success), (''user_id'', Str ''1'')]\<rparr>"
  using loginUser_decision_order
      [of store_users "[(''username'', Str ''bob''), (''password'', Str ''x'')]"]
    loginUser_decision_order
      [of store_users "[(''username'', Str ''carol''), (''password'', Str ''wrong'')]"]
    loginUser_decision_order
      [of store_users "[(''username'', Str ''carol''), (''password'', Str ''pw123'')]"]
    loginUser_decision_order
      [of store_users "[(''username'', Str ''alice''), (''password'', Str ''$2b$10$correct'')]"]
  by (simp add: store_users_def row_alice_def row_carol_def js_get_def)

text \<open>
  C3. The claim: no operation stores or logs the password in plaintext. \<open>createUser\<close> and
  \<open>updatePassword\<close> write only the hash, but the first statement of \<open>loginUser\<close> writes
  the whole request body to the console, the submitted password included. Here is the
  console after one login request.
\<close>

theorem loginUser_logs_plaintext_password:
  "console (snd (loginUser [(''username'', Str ''alice''), (''password'', Str ''correct'')]
              store_empty)) =
     [ConsoleLog [LStr ''Login request received: '',
                  LObj [(''username'', Str ''alice''), (''password'', Str ''correct'')]]]"
  by (simp add: loginUser_def Let_def findUserByUsername_def console_log_def js_get_def
        store_empty_def)

section \<open>Creating and verifying users\<close>

text \<open>
  C4. Whatever \<open>userData\<close> holds (a key \<^verbatim>\<open>verified\<close> included), a successful
  \<open>createUser\<close> appends one row, and that row has \<open>verified = False\<close>: the INSERT does
  not name the column, so the row takes the default of the table. The call succeeds
  whenever the password is a string and the store answers.
\<close>

theorem createUser_verified_false:
  assumes "failure w = None" and "js_get userData ''user_password'' = Str p"
  shows "\<exists>w'. createUser B new_id userData w = Inr w'
           \<and> user_list w' = user_list w @ [last (user_list w')]
           \<and> verified (last (user_list w')) = False
           \<and> username (last (user_list w')) = prepareValue (js_get userData ''username'')
           \<and> user_password (last (user_list w')) = Some (hash_of B p 10)"
  using createUser_row [OF assms, of B new_id] by simp

theorem createUser_verified_false_witness:
  "failure store_empty = None
   \<and> js_get [(''username'', Str ''alice''), (''user_password'', Str ''pw''),
              (''verified'', Str ''true'')] ''user_password'' = Str ''pw''
   \<and> (\<exists>w'. createUser toy_bcrypt ''1''
               [(''username'', Str ''alice''), (''user_password'', Str ''pw''),
                (''verified'', Str ''true'')] store_empty = Inr w'
           \<and> user_list w' = user_list store_empty @ [last (user_list w')]
           \<and> verified (last (user_list w')) = False
           \<and> username (last (user_list w')) = Some ''alice''
           \<and> user_password (last (user_list w')) = Some ''$2b$10$pw'')"
  using createUser_verified_false
    [of store_empty
        "[(''username'', Str ''alice''), (''user_password'', Str ''pw''),
          (''verified'', Str ''true'')]"
        "''pw''" toy_bcrypt "''1''"]
  by (auto simp: js_get_def store_empty_def toy_bcrypt_def)

text \<open>
  C6. When the store answers, \<open>verifyUsers\<close> returns without error for every list of
  usernames; afterwards each row whose username is in the list is the old row with
  \<open>verified = True\<close>, every other row is as before, and so is the admin list. Names in the
  list that no row carries change nothing.
\<close>

theorem verifyUsers_effect:
  assumes "failure w = None"
  shows "\<exists>w'. verifyUsers names w = Inr w'
           \<and> length (user_list w') = length (user_list w)
           \<and> admin_list w' = admin_list w
           \<and> (\<forall>i<length (user_list w).
                 user_list w' ! i =
                   (if \<exists>n\<in>set names. username (user_list w ! i) = Some n
                    then (user_list w ! i)\<lparr>verified := True\<rparr>
                    else user_list w ! i))"
  using assms by (simp add: verifyUsers_def sql_any_iff)

theorem verifyUsers_effect_witness:
  "failure store_users = None
   \<and> verifyUsers [''carol'', ''bob''] store_users =
       Inr (store_users\<lparr>user_list := [row_alice, row_carol\<lparr>verified := True\<rparr>]\<rparr>)"
proof -
  have f: "failure store_users = None"
    by (simp add: store_users_def)
  from verifyUsers_effect [OF f, of "[''carol'', ''bob'']"] f show ?thesis
    by (simp add: verifyUsers_def sql_any_def store_users_def row_alice_def row_carol_def)
qed

section \<open>Updating a profile\<close>

text \<open>
  C5. When the store answers, \<open>updateUserById\<close> returns a row count, and every row with
  the given id has \<open>verified = False\<close> afterwards, for every \<open>updatedInfo\<close>, the empty
  object included.
\<close>

theorem updateUserById_resets_verified:
  assumes "failure w = None"
  shows "\<exists>n w'. updateUserById (Str uid) info w = (Inr n, w')
           \<and> length (user_list w') = length (user_list w)
           \<and> (\<forall>i<length (user_list w).
                 row_id (user_list w ! i) = uid \<longrightarrow>
                 row_id (user_list w' ! i) = uid \<and> verified (user_list w' ! i) = False)"
  using assms by (simp add: updateUserById_def Let_def)

theorem updateUserById_resets_verified_witness:
  "failure store_users = None
   \<and> verified (user_list store_users ! 0)
   \<and> \<not> verified (user_list (snd (updateUserById (Str ''1'') [] store_users)) ! 0)"
proof -
  have f: "failure store_users = None"
    and a: "0 < length (user_list store_users)" "row_id (user_list store_users ! 0) = ''1''"
    and b: "verified (user_list store_users ! 0)"
    by (simp_all add: store_users_def row_alice_def)
  from updateUserById_resets_verified [OF f, of "''1''" "[]"]
  obtain n w' where u: "updateUserById (Str ''1'') [] store_users = (Inr n, w')"
    and v: "\<forall>i<length (user_list store_users).
              row_id (user_list store_users ! i) = ''1'' \<longrightarrow>
              row_id (user_list w' ! i) = ''1'' \<and> verified (user_list w' ! i) = False"
    by blast
  from v a have "\<not> verified (user_list w' ! 0)"
    by blast
  with u have "\<not> verified (user_list (snd (updateUserById (Str ''1'') [] store_users)) ! 0)"
    by simp
  with f b show ?thesis
    by blast
qed

text \<open>
  C8. When the store answers, \<open>updateUserById\<close> is a coalesce merge on the rows with the
  given id: each of first name, the two surnames and email becomes the string supplied
  for it, and keeps its stored value when the input field is absent or null; id,
  username and password hash keep their values; rows with another id are not touched.
  The surname inputs are the properties \<^verbatim>\<open>last_name1\<close> and \<^verbatim>\<open>last_name2\<close>.
\<close>

theorem updateUserById_coalesce:
  assumes "failure w = None" and "i < length (user_list w)"
  shows "let r = user_list w ! i;
             r' = user_list (snd (updateUserById (Str uid) info w)) ! i
         in (row_id r \<noteq> uid \<longrightarrow> r' = r)
          \<and> (row_id r = uid \<longrightarrow>
               first_name r' = (case js_get info ''first_name'' of Str v \<Rightarrow> Some v | _ \<Rightarrow> first_name r)
             \<and> last_name_1 r' = (case js_get info ''last_name1'' of Str v \<Rightarrow> Some v | _ \<Rightarrow> last_name_1 r)
             \<and> last_name_2 r' = (case js_get info ''last_name2'' of Str v \<Rightarrow> Some v | _ \<Rightarrow> last_name_2 r)
             \<and> email r' = (case js_get info ''email'' of Str v \<Rightarrow> Some v | _ \<Rightarrow> email r)
             \<and> row_id r' = row_id r
             \<and> username r' = username r
             \<and> user_password r' = user_password r)"
  using assms by (simp add: updateUserById_def Let_def coalesce_prepareValue)

theorem updateUserById_coalesce_witness:
  "failure store_users = None
   \<and> 0 < length (user_list store_users)
   \<and> user_list (snd (updateUserById (Str ''1'')
                       [(''first_name'', Str ''Anna''), (''email'', Null)] store_users)) ! 0 =
       row_alice\<lparr>first_name := Some ''Anna'', verified := False\<rparr>"
proof -
  have f: "failure store_users = None" and l: "0 < length (user_list store_users)"
    by (simp_all add: store_users_def)
  from updateUserById_coalesce
         [OF f l, of "''1''" "[(''first_name'', Str ''Anna''), (''email'', Null)]"] f l
  show ?thesis
    by (simp add: updateUserById_def js_get_def coalesce_def store_users_def row_alice_def)
qed

text \<open>
  C10. \<open>updateUserById\<close> reads the surnames from the properties \<^verbatim>\<open>last_name1\<close> and
  \<^verbatim>\<open>last_name2\<close>, \<open>createUser\<close> from \<^verbatim>\<open>last_name_1\<close> and \<^verbatim>\<open>last_name_2\<close>, the names of the
  columns. When the store answers, the surname columns of a row with the given id become
  the strings found under \<^verbatim>\<open>last_name1\<close> and \<^verbatim>\<open>last_name2\<close>, and keep their stored values
  when these two properties are absent or null, whatever the object carries under the
  keys of creation; rows with another id keep their surnames. The update depends on no
  property other than the four it reads, and \<open>createUser\<close>, given the same object, stores
  what is under the keys of creation.
\<close>

theorem updateUserById_surname_keys:
  assumes "failure w = None" and "i < length (user_list w)"
  shows "let r = user_list w ! i;
             r' = user_list (snd (updateUserById (Str uid) info w)) ! i
         in last_name_1 r' =
              (if row_id r = uid
               then (case js_get info ''last_name1'' of Str v \<Rightarrow> Some v | _ \<Rightarrow> last_name_1 r)
               else last_name_1 r)
          \<and> last_name_2 r' =
              (if row_id r = uid
               then (case js_get info ''last_name2'' of Str v \<Rightarrow> Some v | _ \<Rightarrow> last_name_2 r)
               else last_name_2 r)
          \<and> (\<forall>info'. (\<forall>k\<in>{''first_name'', ''last_name1'', ''last_name2'', ''email''}.
                         js_get info' k = js_get info k) \<longrightarrow>
                     updateUserById (Str uid) info' w = updateUserById (Str uid) info w)
          \<and> (\<forall>B new_id p. js_get info ''user_password'' = Str p \<longrightarrow>
                (\<exists>w'. createUser B new_id info w = Inr w'
                    \<and> last_name_1 (last (user_list w')) = prepareValue (js_get info ''last_name_1'')
                    \<and> last_name_2 (last (user_list w')) = prepareValue (js_get info ''last_name_2'')))"
proof -
  let ?r = "user_list w ! i"
  let ?r' = "user_list (snd (updateUserById (Str uid) info w)) ! i"
  have s1: "last_name_1 ?r' =
      (if row_id ?r = uid
       then (case js_get info ''last_name1'' of Str v \<Rightarrow> Some v | _ \<Rightarrow> last_name_1 ?r)
       else last_name_1 ?r)"
    using assms by (simp add: updateUserById_def Let_def coalesce_prepareValue)
  have s2: "last_name_2 ?r' =
      (if row_id ?r = uid
       then (case js_get info ''last_name2'' of Str v \<Rightarrow> Some v | _ \<Rightarrow> last_name_2 ?r)
       else last_name_2 ?r)"
    using assms by (simp add: updateUserById_def Let_def coalesce_prepareValue)
  have ind: "\<forall>info'. (\<forall>k\<in>{''first_name'', ''last_name1'', ''last_name2'', ''email''}.
                         js_get info' k = js_get info k) \<longrightarrow>
                     updateUserById (Str uid) info' w = updateUserById (Str uid) info w"
    by (simp add: updateUserById_def)
  have cr: "\<forall>B new_id p. js_get info ''user_password'' = Str p \<longrightarrow>
                (\<exists>w'. createUser B new_id info w = Inr w'
                    \<and> last_name_1 (last (user_list w')) = prepareValue (js_get info ''last_name_1'')
                    \<and> last_name_2 (last (user_list w')) = prepareValue (js_get info ''last_name_2''))"
  proof (intro allI impI)
    fix B new_id p
    assume "js_get info ''user_password'' = Str p"
    with assms(1) show "\<exists>w'. createUser B new_id info w = Inr w'
        \<and> last_name_1 (last (user_list w')) = prepareValue (js_get info ''last_name_1'')
        \<and> last_name_2 (last (user_list w')) = prepareValue (js_get info ''last_name_2'')"
      by (simp add: createUser_row)
  qed
  from s1 s2 ind cr show ?thesis
    unfolding Let_def by (intro conjI)
qed

theorem updateUserById_surname_keys_witness:
  "failure store_users = None
   \<and> 0 < length (user_list store_users)
   \<and> last_name_1 (user_list (snd (updateUserById (Str ''1'')
         [(''last_name_1'', Str ''Garcia''), (''last_name_2'', Str ''Lopez'')] store_users)) ! 0) =
       Some ''Perez''
   \<and> last_name_2 (user_list (snd (updateUserById (Str ''1'')
         [(''last_name_1'', Str ''Garcia''), (''last_name_2'', Str ''Lopez'')] store_users)) ! 0) =
       Some ''Ruiz''
   \<and> last_name_1 (user_list (snd (updateUserById (Str ''1'')
         [(''last_name1'', Str ''Garcia''), (''last_name2'', Str ''Lopez'')] store_users)) ! 0) =
       Some ''Garcia''
   \<and> last_name_2 (user_list (snd (updateUserById (Str ''1'')
         [(''last_name1'', Str ''Garcia''), (''last_name2'', Str ''Lopez'')] store_users)) ! 0) =
       Some ''Lopez''"
proof -
  let ?create = "[(''last_name_1'', Str ''Garcia''), (''last_name_2'', Str ''Lopez'')]"
  let ?update = "[(''last_name1'', Str ''Garcia''), (''last_name2'', Str ''Lopez'')]"
  have f: "failure store_users = None" and l: "0 < length (user_list store_users)"
    by (simp_all add: store_users_def)
  have r: "row_id (user_list store_users ! 0) = ''1''"
    "last_name_1 (user_list store_users ! 0) = Some ''Perez''"
    "last_name_2 (user_list store_users ! 0) = Some ''Ruiz''"
    by (simp_all add: store_users_def row_alice_def)
  note c = updateUserById_surname_keys [OF f l, of "''1''" ?create, unfolded Let_def]
  note u = updateUserById_surname_keys [OF f l, of "''1''" ?update, unfolded Let_def]
  have "last_name_1 (user_list (snd (updateUserById (Str ''1'') ?create store_users)) ! 0) =
      Some ''Perez''"
    using conjunct1 [OF c] by (simp add: r js_get_def)
  moreover
  have "last_name_2 (user_list (snd (updateUserById (Str ''1'') ?create store_users)) ! 0) =
      Some ''Ruiz''"
    using conjunct1 [OF conjunct2 [OF c]] by (simp add: r js_get_def)
  moreover
  have "last_name_1 (user_list (snd (updateUserById (Str ''1'') ?update store_users)) ! 0) =
      Some ''Garcia''"
    using conjunct1 [OF u] by (simp add: r js_get_def)
  moreover
  have "last_name_2 (user_list (snd (updateUserById (Str ''1'') ?update store_users)) ! 0) =
      Some ''Lopez''"
    using conjunct1 [OF conjunct2 [OF u]] by (simp add: r js_get_def)
  ultimately show ?thesis
    using f l by blast
qed

text \<open>
  An object may carry a surname under both spellings. Then the one under the key of
  creation is still ignored, but the stored surname does change: it becomes the value
  under \<^verbatim>\<open>last_name1\<close>. So "the stored surname fields remain unchanged" does not hold for
  every update object that supplies surnames under the keys of creation.
\<close>

theorem updateUserById_surname_keys_counterexample:
  "js_get [(''last_name_1'', Str ''Garcia''), (''last_name1'', Str ''X'')] ''last_name_1'' =
     Str ''Garcia''
   \<and> last_name_1 (user_list store_users ! 0) = Some ''Perez''
   \<and> last_name_1 (user_list (snd (updateUserById (Str ''1'')
         [(''last_name_1'', Str ''Garcia''), (''last_name1'', Str ''X'')] store_users)) ! 0) =
       Some ''X''"
  by (simp add: updateUserById_def js_get_def coalesce_def store_users_def row_alice_def)

section \<open>Changing a password\<close>

text \<open>
  C9. When the store answers, \<open>updatePassword\<close> with a string password succeeds, and each
  row with the given id is the old row with \<open>user_password\<close> replaced by the hash (cost
  10) of the new plaintext; every other row is as before. In particular no verified flag
  changes.
\<close>

theorem updatePassword_frame:
  assumes "failure w = None"
  shows "\<exists>w'. updatePassword B (Str uid) (Str p) w = Inr w'
           \<and> length (user_list w') = length (user_list w)
           \<and> admin_list w' = admin_list w
           \<and> (\<forall>i<length (user_list w).
                 user_list w' ! i =
                   (if row_id (user_list w ! i) = uid
                    then (user_list w ! i)\<lparr>user_password := Some (hash_of B p 10)\<rparr>
                    else user_list w ! i)
                 \<and> verified (user_list w' ! i) = verified (user_list w ! i))"
  using assms by (simp add: updatePassword_def bcrypt_hash_def)

theorem updatePassword_frame_witness:
  "failure store_users = None
   \<and> updatePassword toy_bcrypt (Str ''1'') (Str ''new'') store_users =
       Inr (store_users\<lparr>user_list :=
              [row_alice\<lparr>user_password := Some ''$2b$10$new''\<rparr>, row_carol]\<rparr>)"
proof -
  have f: "failure store_users = None"
    by (simp add: store_users_def)
  from updatePassword_frame [OF f, of toy_bcrypt "''1''" "''new''"] f show ?thesis
    by (simp add: updatePassword_def bcrypt_hash_def toy_bcrypt_def store_users_def
          row_alice_def row_carol_def)
qed

section \<open>The admin check\<close>

text \<open>
  C7. \<open>checkAdmin\<close> answers 200 with the administrator message exactly when the store
  answers and \<open>admin_list\<close> holds the submitted id, 200 with the user message when the
  store answers and it does not, and 500 when the query fails; the 500 response is
  neither of the two classifications.
\<close>

theorem checkAdmin_classification:
  "fst (checkAdmin body w) =
     (case failure w of
        Some m \<Rightarrow> \<lparr>status = 500, json = [(''message'', Str ''Internal server error'')]\<rparr>
      | None \<Rightarrow>
          if \<exists>a\<in>set (admin_list w). js_get body ''user_id'' = Str a
          then \<lparr>status = 200, json = [(''message'', Str ''Entrando en ajustes como administrador'')]\<rparr>
          else \<lparr>status = 200, json = [(''message'', Str ''Entrando en ajustes de usuario'')]\<rparr>)
   \<and> (\<lparr>status = 500, json = [(''message'', Str ''Internal server error'')]\<rparr>
          \<notin> {\<lparr>status = 200, json = [(''message'', Str ''Entrando en ajustes como administrador'')]\<rparr>,
              \<lparr>status = 200, json = [(''message'', Str ''Entrando en ajustes de usuario'')]\<rparr>})"
  by (cases "js_get body ''user_id''")
     (auto simp: checkAdmin_def checkIfAdmin_def filter_empty_conv split: option.splits)

theorem checkAdmin_classification_witness:
  "fst (checkAdmin [(''user_id'', Str ''1'')] store_users) =
     \<lparr>status = 200, json = [(''message'', Str ''Entrando en ajustes como administrador'')]\<rparr>
   \<and> fst (checkAdmin [(''user_id'', Str ''3'')] store_users) =
     \<lparr>status = 200, json = [(''message'', Str ''Entrando en ajustes de usuario'')]\<rparr>
   \<and> fst (checkAdmin [(''user_id'', Str ''1'')] store_down) =
     \<lparr>status = 500, json = [(''message'', Str ''Internal server error'')]\<rparr>"
  using checkAdmin_classification [of "[(''user_id'', Str ''1'')]" store_users]
    checkAdmin_classification [of "[(''user_id'', Str ''3'')]" store_users]
    checkAdmin_classification [of "[(''user_id'', Str ''1'')]" store_down]
  by (simp add: js_get_def store_users_def store_down_def)

end
